theory Spec2Isabelle
  imports Main "HOL-Library.Word"
begin

unbundle bit_operations_syntax

section \<open>JavaScript strings and objects\<close>

text \<open>
  The module \<^verbatim>\<open>excelProcessor.js\<close> exists in two revisions in the repository: the one
  with the Pinecone SDK client and the direct-API fallback, and the later one that talks to
  the direct API only, adds \<^verbatim>\<open>MOCK_MODE\<close>, the greeting pattern and the guarded
  \<^verbatim>\<open>JSON.parse\<close>.  \<^verbatim>\<open>withRetry\<close>, \<^verbatim>\<open>getEmbedding\<close>,
  \<^verbatim>\<open>generateStableId\<close> and the extraction loop of \<^verbatim>\<open>processExcelRFP\<close> are the same
  text in both.  The functions that differ are embedded twice; the later revision keeps the
  source's names, the SDK revision carries the suffix \<open>_sdk\<close>.

  A JavaScript string is modelled as a \<open>string\<close> whose characters are the code units
  U+0000 .. U+00FF.  \<^verbatim>\<open>console.log\<close> output is not modelled.
\<close>

definition js_whitespace :: "char \<Rightarrow> bool" where
  \<comment> \<open>the code units below U+0100 that \<^verbatim>\<open>String.prototype.trim\<close> and the regular
      expression class \<^verbatim>\<open>\s\<close> treat as white space\<close>
  "js_whitespace c = ((of_char c :: nat) \<in> {9, 10, 11, 12, 13, 32, 160})"

definition trim :: "string \<Rightarrow> string" where
  "trim s = rev (dropWhile js_whitespace (rev (dropWhile js_whitespace s)))"

definition lower_char :: "char \<Rightarrow> char" where
  \<comment> \<open>\<open>A\<close> .. \<open>Z\<close> and U+00C0 .. U+00DE without U+00D7 move up by 32, which sets bit 5\<close>
  "lower_char c = (let n = (of_char c :: nat) in
     if (65 \<le> n \<and> n \<le> 90) \<or> (192 \<le> n \<and> n \<le> 222 \<and> n \<noteq> 215)
     then (case c of Char b0 b1 b2 b3 b4 b5 b6 b7 \<Rightarrow> Char b0 b1 b2 b3 b4 True b6 b7) else c)"

definition toLowerCase :: "string \<Rightarrow> string" where
  "toLowerCase s = map lower_char s"

fun js_includes :: "string \<Rightarrow> string \<Rightarrow> bool" where
  "js_includes [] sub = (sub = [])"
| "js_includes (c # cs) sub = (take (length sub) (c # cs) = sub \<or> js_includes cs sub)"

fun join :: "string \<Rightarrow> string list \<Rightarrow> string" where
  "join sep [] = []"
| "join sep [x] = x"
| "join sep (x # y # ys) = x @ sep @ join sep (y # ys)"

definition template :: "string option \<Rightarrow> string" where
  \<comment> \<open>\<^verbatim>\<open>${v}\<close> in a template literal, for a value that is a string or \<^verbatim>\<open>undefined\<close>\<close>
  "template v = (case v of None \<Rightarrow> ''undefined'' | Some s \<Rightarrow> s)"

text \<open>
  A plain object with string values: its own properties in creation order.  Assigning to an
  existing key keeps the key's position.  Enumeration (\<^verbatim>\<open>Object.entries\<close>, spread,
  \<^verbatim>\<open>JSON.stringify\<close>) lists the keys that are array indices first, in ascending numeric
  order, then the other keys in creation order.
\<close>

type_synonym 'v obj = "(string \<times> 'v) list"

fun obj_set :: "'v obj \<Rightarrow> string \<Rightarrow> 'v \<Rightarrow> 'v obj" where
  "obj_set [] k v = [(k, v)]"
| "obj_set ((k', v') # ob) k v = (if k' = k then (k, v) # ob else (k', v') # obj_set ob k v)"

definition digit_value :: "char \<Rightarrow> int" where
  "digit_value c = int (of_char c) - 48"

definition array_index :: "string \<Rightarrow> int option" where
  \<comment> \<open>the canonical decimal strings of the integers \<open>0 .. 2\<^sup>3\<^sup>2 - 2\<close>\<close>
  "array_index s =
     (if s = [] \<or> 10 < length s \<or> \<not> list_all (\<lambda>c. 0 \<le> digit_value c \<and> digit_value c \<le> 9) s
         \<or> (hd s = CHR ''0'' \<and> s \<noteq> ''0'') then None
      else let n = foldl (\<lambda>acc c. 10 * acc + digit_value c) 0 s
           in if n < 4294967295 then Some n else None)"

definition obj_entries :: "'v obj \<Rightarrow> (string \<times> 'v) list" where
  "obj_entries ob =
     sort_key (\<lambda>(k, v). the (array_index k)) (filter (\<lambda>(k, v). array_index k \<noteq> None) ob)
     @ filter (\<lambda>(k, v). array_index k = None) ob"

section \<open>The content hash: \<^verbatim>\<open>crypto.createHash('md5').update(content).digest('hex')\<close>\<close>

text \<open>
  Node's \<^verbatim>\<open>crypto\<close> is not code of the repository; the hash is written out after RFC 1321
  so that identifiers are concrete values.  \<^verbatim>\<open>update\<close> encodes the string as UTF-8.
\<close>

type_synonym byte = "8 word"
type_synonym u32 = "32 word"

definition utf8_encode :: "string \<Rightarrow> byte list" where
  "utf8_encode s = concat (map (\<lambda>c. let n = (of_char c :: nat) in
       if n < 128 then [of_nat n]
       else [of_nat (192 + n div 64), of_nat (128 + n mod 64)]) s)"

function chunk :: "nat \<Rightarrow> 'a list \<Rightarrow> 'a list list" where
  "chunk n xs = (if n = 0 \<or> xs = [] then [] else take n xs # chunk n (drop n xs))"
  by pat_completeness auto
termination
  by (relation "measure (\<lambda>(n, xs). length xs)") auto

declare chunk.simps [simp del]

definition md5_K :: "u32 list" where
  "md5_K = [0xd76aa478, 0xe8c7b756, 0x242070db, 0xc1bdceee, 0xf57c0faf, 0x4787c62a, 0xa8304613,
     0xfd469501, 0x698098d8, 0x8b44f7af, 0xffff5bb1, 0x895cd7be, 0x6b901122, 0xfd987193,
     0xa679438e, 0x49b40821, 0xf61e2562, 0xc040b340, 0x265e5a51, 0xe9b6c7aa, 0xd62f105d,
     0x2441453, 0xd8a1e681, 0xe7d3fbc8, 0x21e1cde6, 0xc33707d6, 0xf4d50d87, 0x455a14ed,
     0xa9e3e905, 0xfcefa3f8, 0x676f02d9, 0x8d2a4c8a, 0xfffa3942, 0x8771f681, 0x6d9d6122,
     0xfde5380c, 0xa4beea44, 0x4bdecfa9, 0xf6bb4b60, 0xbebfbc70, 0x289b7ec6, 0xeaa127fa,
     0xd4ef3085, 0x4881d05, 0xd9d4d039, 0xe6db99e5, 0x1fa27cf8, 0xc4ac5665, 0xf4292244,
     0x432aff97, 0xab9423a7, 0xfc93a039, 0x655b59c3, 0x8f0ccc92, 0xffeff47d, 0x85845dd1,
     0x6fa87e4f, 0xfe2ce6e0, 0xa3014314, 0x4e0811a1, 0xf7537e82, 0xbd3af235, 0x2ad7d2bb,
     0xeb86d391]"

definition md5_s :: "nat list" where
  "md5_s = [7, 12, 17, 22, 7, 12, 17, 22, 7, 12, 17, 22, 7, 12, 17, 22,
            5, 9, 14, 20, 5, 9, 14, 20, 5, 9, 14, 20, 5, 9, 14, 20,
            4, 11, 16, 23, 4, 11, 16, 23, 4, 11, 16, 23, 4, 11, 16, 23,
            6, 10, 15, 21, 6, 10, 15, 21, 6, 10, 15, 21, 6, 10, 15, 21]"

definition md5_pad :: "byte list \<Rightarrow> byte list" where
  "md5_pad m = (let n = length m; z = (55 + 64 - n mod 64) mod 64
     in m @ [0x80] @ replicate z 0
        @ map (\<lambda>i. ucast (drop_bit (8 * i) (of_nat (8 * n) :: 64 word))) [0..<8])"

definition le_word :: "byte list \<Rightarrow> u32" where
  "le_word bs = foldr (\<lambda>b acc. push_bit 8 acc OR ucast b) bs 0"

definition le_bytes :: "u32 \<Rightarrow> byte list" where
  "le_bytes w = map (\<lambda>i. ucast (drop_bit (8 * i) w)) [0..<4]"

definition md5_step :: "u32 list \<Rightarrow> u32 \<times> u32 \<times> u32 \<times> u32 \<Rightarrow> nat \<Rightarrow> u32 \<times> u32 \<times> u32 \<times> u32" where
  "md5_step M st i = (case st of (A, B, C, D) \<Rightarrow>
     let (F, g) =
       (if i < 16 then ((B AND C) OR (NOT B AND D), i)
        else if i < 32 then ((D AND B) OR (NOT D AND C), (5 * i + 1) mod 16)
        else if i < 48 then (B XOR C XOR D, (3 * i + 5) mod 16)
        else (C XOR (B OR NOT D), (7 * i) mod 16));
       F' = F + A + md5_K ! i + M ! g
     in (D, B + word_rotl (md5_s ! i) F', B, C))"

definition md5_block :: "u32 \<times> u32 \<times> u32 \<times> u32 \<Rightarrow> byte list \<Rightarrow> u32 \<times> u32 \<times> u32 \<times> u32" where
  "md5_block h blk = (case h of (a0, b0, c0, d0) \<Rightarrow>
     case foldl (md5_step (map le_word (chunk 4 blk))) h [0..<64] of
       (A, B, C, D) \<Rightarrow> (a0 + A, b0 + B, c0 + C, d0 + D))"

definition hex_digit :: "nat \<Rightarrow> char" where
  "hex_digit n = ''0123456789abcdef'' ! n"

definition hex_byte :: "byte \<Rightarrow> string" where
  "hex_byte b = [hex_digit (unat b div 16), hex_digit (unat b mod 16)]"

definition md5_hex :: "string \<Rightarrow> string" where
  "md5_hex s = (case foldl md5_block (0x67452301, 0xefcdab89, 0x98badcfe, 0x10325476)
                      (chunk 64 (md5_pad (utf8_encode s))) of
     (a, b, c, d) \<Rightarrow> concat (map hex_byte (concat (map le_bytes [a, b, c, d]))))"

section \<open>Effects: remote calls, timers, exceptions\<close>

text \<open>
  Every thrown value of the libraries involved is an \<^verbatim>\<open>Error\<close> object; the model keeps
  its message.  \<open>TypeError\<close> stands for the errors the language itself raises when a property
  of \<^verbatim>\<open>undefined\<close> is read.
\<close>

datatype error = Error string | TypeError string

primrec message :: "error \<Rightarrow> string" where
  "message (Error m) = m"
| "message (TypeError m) = m"

text \<open>
  Numbers that the module only passes on (embedding components, similarity scores) are kept
  as their IEEE 754 bit patterns; no arithmetic is done on them.
\<close>

type_synonym float64 = "64 word"

type_synonym embedding = "float64 list"

record vector_record =
  vr_id :: string
  vr_values :: "embedding option"
  vr_metadata :: "string obj"

datatype condition = Equals string | Exists

record filter_conditions =
  fc_category :: "condition option"
  fc_sheetName :: "condition option"

record chat_message =
  role :: string
  content :: string

datatype request =
    EmbeddingsCreate string
  | ChatCompletionsCreate "chat_message list"
  | ApiFetch "string list"
  | ApiUpsert "vector_record list"
  | ApiQuery embedding nat filter_conditions
  | SdkFetch "string list"
  | SdkUpsert "vector_record list"
  | SdkQuery embedding nat filter_conditions

datatype event = Request request | SetTimeout int

text \<open>
  The state threaded through the module is the trace of what it has asked of the outside so
  far: the remote requests, in order, and the timers it has waited for.  The outcome of a
  remote request is a function of that history and of the request, supplied by the
  environment; \<open>call\<close> records the request and returns the outcome.
\<close>

type_synonym world = "event list"

type_synonym 'a io = "world \<Rightarrow> (error + 'a) \<times> world"

definition call :: "request \<Rightarrow> (world \<Rightarrow> error + 'a) \<Rightarrow> 'a io" where
  "call r outcome w = (outcome w, w @ [Request r])"

definition setTimeout :: "int \<Rightarrow> world \<Rightarrow> world" where
  \<comment> \<open>\<^verbatim>\<open>await new Promise(resolve => setTimeout(resolve, delay))\<close>\<close>
  "setTimeout delay w = w @ [SetTimeout delay]"

subsection \<open>\<^verbatim>\<open>withRetry\<close>\<close>

text \<open>
  The \<^verbatim>\<open>for\<close> loop of \<^verbatim>\<open>withRetry\<close>, with its counter \<open>i\<close>.  Falling out of the loop
  returns \<^verbatim>\<open>undefined\<close>, which is \<open>None\<close>.
\<close>

function withRetry_loop :: "'a io \<Rightarrow> int \<Rightarrow> int \<Rightarrow> int \<Rightarrow> world \<Rightarrow> (error + 'a option) \<times> world" where
  "withRetry_loop operation maxRetries i delay w =
     (if i < maxRetries then
        (case operation w of
           (Inr v, w') \<Rightarrow> (Inr (Some v), w')
         | (Inl e, w') \<Rightarrow>
             if i = maxRetries - 1 then (Inl e, w')
             else withRetry_loop operation maxRetries (i + 1) (delay * 2) (setTimeout delay w'))
      else (Inr None, w))"
  by pat_completeness auto
termination
  by (relation "measure (\<lambda>(operation, maxRetries, i, delay, w). nat (maxRetries - i))") auto

declare withRetry_loop.simps [simp del]

definition withRetry :: "'a io \<Rightarrow> int \<Rightarrow> int \<Rightarrow> world \<Rightarrow> (error + 'a option) \<times> world" where
  "withRetry operation maxRetries delay w = withRetry_loop operation maxRetries 0 delay w"

text \<open>
  The state in which invocation \<open>k\<close> (counting from 0) of the operation starts when the
  invocations before it have failed: after each failure the timer, then the doubled delay.
  For a single request \<open>r\<close> this is the trace extended by \<open>failed_attempts r delay k\<close>.
  \<open>slept\<close> is the time a trace has spent in timers.
\<close>

fun attempt_state :: "'a io \<Rightarrow> int \<Rightarrow> world \<Rightarrow> nat \<Rightarrow> world" where
  "attempt_state operation delay w 0 = w"
| "attempt_state operation delay w (Suc k) =
     attempt_state operation (delay * 2) (setTimeout delay (snd (operation w))) k"

fun failed_attempts :: "request \<Rightarrow> int \<Rightarrow> nat \<Rightarrow> event list" where
  "failed_attempts r delay 0 = []"
| "failed_attempts r delay (Suc k) = Request r # SetTimeout delay # failed_attempts r (delay * 2) k"

fun slept :: "world \<Rightarrow> int" where
  "slept [] = 0"
| "slept (SetTimeout d # w) = d + slept w"
| "slept (Request r # w) = slept w"

section \<open>Data of the module\<close>

text \<open>
  The loaded workbook, as the extraction loop reads it through ExcelJS: per worksheet its
  name, \<^verbatim>\<open>getRow(1).values.slice(1)\<close>, and what \<^verbatim>\<open>eachRow\<close> and \<^verbatim>\<open>eachCell\<close>
  pass to their callbacks (row number; column number and \<^verbatim>\<open>cell.text\<close>).  A header value
  is a hole or another falsy non-string (\<open>Empty\<close>), a string, or a truthy value that is not
  a string (a number, a date, a rich-text or formula object).
\<close>

datatype cell_value = Empty | Text string | Other

record worksheet =
  ws_name :: string
  ws_header :: "cell_value list"
  ws_rows :: "(nat \<times> (nat \<times> string) list) list"

type_synonym workbook = "worksheet list"

type_synonym metadata = "string obj"

record item =
  item_category :: string
  item_sheetName :: string
  item_text :: string
  item_originalData :: "string obj"

record stats =
  totalItems :: nat
  processed :: nat
  skipped :: nat
  errors :: nat

record ingest_result =
  ir_success :: bool
  ir_stats :: stats
  ir_sheets :: "string list"
  ir_mockMode :: "bool option"

record fetch_response =
  vectors :: "(string \<rightharpoonup> vector_record) option"

text \<open>
  A metadata value of a stored match: a string, or a value of another type, kept as the
  string JavaScript coerces it to.
\<close>

datatype meta_value = MString string | MOther string

record match_metadata =
  md_text :: "string option"
  md_originalData :: "meta_value option"
  md_category :: "string option"
  md_sheetName :: "string option"

record match =
  m_score :: float64
  m_metadata :: match_metadata

record query_response =
  matches :: "match list option"

datatype json =
    JNull | JBool bool | JNumber float64 | JString string
  | JArray "json list" | JObject "(string \<times> json) list"


record source_context_sdk =
  scs_text :: "string option"
  scs_originalData :: json
  scs_category :: "string option"
  scs_sheetName :: "string option"
  scs_similarity :: float64

record 'c query_result =
  qr_answer :: string
  qr_sources :: "'c list"
  qr_mockMode :: "bool option"
  qr_error :: "string option"

text \<open>
  The environment of a run: the module-level state (\<^verbatim>\<open>MOCK_MODE\<close> as the startup probe
  left it; whether the SDK client \<^verbatim>\<open>pineconeIndex\<close> was created), the library functions
  that are not code of the repository (\<^verbatim>\<open>workbook.xlsx.load\<close>, \<^verbatim>\<open>JSON.parse\<close>), and the
  outcome of every remote request as a function of the trace so far.
\<close>

record env =
  MOCK_MODE :: bool
  pineconeIndex :: bool
  xlsx_load :: "byte list \<Rightarrow> error + workbook"
  JSON_parse :: "string \<Rightarrow> error + json"
  embeddings_create :: "world \<Rightarrow> string \<Rightarrow> error + embedding list"
  chat_completions_create :: "world \<Rightarrow> chat_message list \<Rightarrow> error + string list"
  api_fetch :: "world \<Rightarrow> string list \<Rightarrow> error + fetch_response"
  api_upsert :: "world \<Rightarrow> vector_record list \<Rightarrow> error + unit"
  api_query :: "world \<Rightarrow> embedding \<Rightarrow> nat \<Rightarrow> filter_conditions \<Rightarrow> error + query_response"
  sdk_fetch :: "world \<Rightarrow> string list \<Rightarrow> error + fetch_response"
  sdk_upsert :: "world \<Rightarrow> vector_record list \<Rightarrow> error + unit"
  sdk_query :: "world \<Rightarrow> embedding \<Rightarrow> nat \<Rightarrow> filter_conditions \<Rightarrow> error + query_response"

section \<open>The gateways\<close>

definition pineconeApi_query :: "env \<Rightarrow> embedding \<Rightarrow> nat \<Rightarrow> filter_conditions \<Rightarrow> query_response io" where
  "pineconeApi_query env embedding topK filters =
     call (ApiQuery embedding topK filters) (\<lambda>h. api_query env h embedding topK filters)"

definition pineconeApi_upsert :: "env \<Rightarrow> vector_record list \<Rightarrow> unit io" where
  "pineconeApi_upsert env vs = call (ApiUpsert vs) (\<lambda>h. api_upsert env h vs)"

definition pineconeApi_fetch :: "env \<Rightarrow> string list \<Rightarrow> fetch_response io" where
  "pineconeApi_fetch env ids = call (ApiFetch ids) (\<lambda>h. api_fetch env h ids)"

definition pineconeIndex_query :: "env \<Rightarrow> embedding \<Rightarrow> nat \<Rightarrow> filter_conditions \<Rightarrow> query_response io" where
  "pineconeIndex_query env embedding topK filters =
     call (SdkQuery embedding topK filters) (\<lambda>h. sdk_query env h embedding topK filters)"

definition pineconeIndex_upsert :: "env \<Rightarrow> vector_record list \<Rightarrow> unit io" where
  "pineconeIndex_upsert env vs = call (SdkUpsert vs) (\<lambda>h. sdk_upsert env h vs)"

definition pineconeIndex_fetch :: "env \<Rightarrow> string list \<Rightarrow> fetch_response io" where
  "pineconeIndex_fetch env ids = call (SdkFetch ids) (\<lambda>h. sdk_fetch env h ids)"

definition getEmbedding :: "env \<Rightarrow> string \<Rightarrow> embedding io" where
  \<comment> \<open>\<^verbatim>\<open>response.data[0].embedding\<close>: the response is modelled by the embeddings of its data\<close>
  "getEmbedding env input w =
     (case call (EmbeddingsCreate input) (\<lambda>h. embeddings_create env h input) w of
        (Inl e, w') \<Rightarrow> (Inl e, w')
      | (Inr [], w') \<Rightarrow>
          (Inl (TypeError ''Cannot read properties of undefined (reading 'embedding')''), w')
      | (Inr (d # ds), w') \<Rightarrow> (Inr d, w'))"

definition chat_completions :: "env \<Rightarrow> chat_message list \<Rightarrow> string list io" where
  \<comment> \<open>\<^verbatim>\<open>openai.chat.completions.create({model: "gpt-4", messages})\<close>; the response is
      modelled by the message contents of its choices\<close>
  "chat_completions env messages =
     call (ChatCompletionsCreate messages) (\<lambda>h. chat_completions_create env h messages)"

section \<open>\<^verbatim>\<open>generateStableId\<close>\<close>

definition stable_content :: "metadata \<Rightarrow> item \<Rightarrow> string" where
  "stable_content metadata item =
     template (map_of metadata ''rfpId'') @ ''-'' @ item_sheetName item @ ''-''
       @ item_category item @ ''-'' @ take 50 (item_text item)"

definition generateStableId :: "metadata \<Rightarrow> item \<Rightarrow> string" where
  "generateStableId metadata item = md5_hex (stable_content metadata item)"

section \<open>\<^verbatim>\<open>processExcelRFP\<close>\<close>

subsection \<open>Extraction\<close>

text \<open>
  The loops over the worksheets, their rows and the groups.  The counter \<^verbatim>\<open>totalRows\<close>
  is written and never read, and is left out.  Header names are taken to be ordinary
  property names (not \<^verbatim>\<open>__proto__\<close>).
\<close>

fun traverse :: "('a \<Rightarrow> error + 'b) \<Rightarrow> 'a list \<Rightarrow> error + 'b list" where
  "traverse f [] = Inr []"
| "traverse f (x # xs) =
     (case f x of Inl e \<Rightarrow> Inl e
      | Inr y \<Rightarrow> (case traverse f xs of Inl e \<Rightarrow> Inl e | Inr ys \<Rightarrow> Inr (y # ys)))"

fun clean_header :: "cell_value \<Rightarrow> error + string" where
  \<comment> \<open>\<^verbatim>\<open>header ? header.trim() : ''\<close>\<close>
  "clean_header Empty = Inr []"
| "clean_header (Text s) = Inr (if s = [] then [] else trim s)"
| "clean_header Other = Inl (TypeError ''header.trim is not a function'')"

definition rowData :: "string list \<Rightarrow> (nat \<times> string) list \<Rightarrow> string obj" where
  "rowData headers cells =
     foldl (\<lambda>rd (colNumber, cell_text).
              if 1 \<le> colNumber \<and> colNumber - 1 < length headers \<and> headers ! (colNumber - 1) \<noteq> []
              then obj_set rd (headers ! (colNumber - 1)) (trim cell_text) else rd)
       [] cells"

definition jsonData :: "string list \<Rightarrow> (nat \<times> (nat \<times> string) list) list \<Rightarrow> string obj list" where
  "jsonData headers rows =
     filter (\<lambda>rd. rd \<noteq> []) (map (\<lambda>(rowNumber, cells). rowData headers cells)
       (filter (\<lambda>(rowNumber, cells). 1 < rowNumber) rows))"

definition groupBy :: "('a \<Rightarrow> string) \<Rightarrow> 'a list \<Rightarrow> ('a list) obj" where
  \<comment> \<open>lodash: the key is used as a property name, \<^verbatim>\<open>hasOwnProperty\<close> decides between
      appending to the group and creating it\<close>
  "groupBy iteratee collection =
     foldl (\<lambda>result x. case map_of result (iteratee x) of
                          Some xs \<Rightarrow> obj_set result (iteratee x) (xs @ [x])
                        | None \<Rightarrow> obj_set result (iteratee x) [x])
       [] collection"

definition property :: "string \<Rightarrow> string obj \<Rightarrow> string" where
  \<comment> \<open>the iteratee \<^verbatim>\<open>_.property(path)\<close>, its value (a string or \<^verbatim>\<open>undefined\<close>) turned
      into the property name it is used as\<close>
  "property path ob = template (map_of ob path)"

definition combinedText :: "string obj \<Rightarrow> string" where
  "combinedText row =
     join [CHR 0x0A] (map (\<lambda>(key, v). key @ '': '' @ v) (filter (\<lambda>(key, v). v \<noteq> []) (obj_entries row)))"

definition sheet_items :: "string \<Rightarrow> (string \<times> string obj list) \<Rightarrow> item list" where
  \<comment> \<open>the body of \<^verbatim>\<open>for (const [category, items] of Object.entries(groupedData))\<close>\<close>
  "sheet_items sheetName grp = (case grp of (category, items) \<Rightarrow>
     concat (map (\<lambda>row. if trim (combinedText row) \<noteq> []
                         then [\<lparr>item_category = (if category = [] then ''uncategorized'' else category),
                                item_sheetName = sheetName,
                                item_text = combinedText row,
                                item_originalData = row\<rparr>]
                         else []) items))"

definition worksheet_items :: "worksheet \<Rightarrow> error + item list" where
  \<comment> \<open>the body of \<^verbatim>\<open>for (const worksheet of workbook.worksheets)\<close>\<close>
  "worksheet_items worksheet =
     (case traverse clean_header (ws_header worksheet) of
        Inl e \<Rightarrow> Inl e
      | Inr headers \<Rightarrow>
          Inr (concat (map (sheet_items (ws_name worksheet))
                 (obj_entries (groupBy (property ''Category'') (jsonData headers (ws_rows worksheet)))))))"

definition processedData :: "workbook \<Rightarrow> error + item list" where
  "processedData workbook =
     (case traverse worksheet_items workbook of Inl e \<Rightarrow> Inl e | Inr xs \<Rightarrow> Inr (concat xs))"

subsection \<open>Deduplication, embedding and upload\<close>

definition json_escape :: "char \<Rightarrow> string" where
  "json_escape c = (let n = (of_char c :: nat) in
     if n = 34 then [CHR 0x5C, CHR 0x22]
     else if n = 92 then [CHR 0x5C, CHR 0x5C]
     else if n = 8 then [CHR 0x5C, CHR ''b'']
     else if n = 12 then [CHR 0x5C, CHR ''f'']
     else if n = 10 then [CHR 0x5C, CHR ''n'']
     else if n = 13 then [CHR 0x5C, CHR ''r'']
     else if n = 9 then [CHR 0x5C, CHR ''t'']
     else if n < 32 then [CHR 0x5C, CHR ''u'', CHR ''0'', CHR ''0'', hex_digit (n div 16), hex_digit (n mod 16)]
     else [c])"

definition json_quote :: "string \<Rightarrow> string" where
  "json_quote s = [CHR 0x22] @ concat (map json_escape s) @ [CHR 0x22]"

definition JSON_stringify :: "string obj \<Rightarrow> string" where
  "JSON_stringify ob =
     ''{'' @ join '','' (map (\<lambda>(k, v). json_quote k @ '':'' @ json_quote v) (obj_entries ob)) @ ''}''"

definition vector_metadata :: "metadata \<Rightarrow> item \<Rightarrow> string obj" where
  \<comment> \<open>\<^verbatim>\<open>{...metadata, category, sheetName, text, originalData: JSON.stringify(...)}\<close>\<close>
  "vector_metadata metadata item =
     foldl (\<lambda>ob (k, v). obj_set ob k v) (obj_entries metadata)
       [(''category'', item_category item), (''sheetName'', item_sheetName item),
        (''text'', item_text item), (''originalData'', JSON_stringify (item_originalData item))]"

text \<open>
  The loop state: the staged \<^verbatim>\<open>batchOperations\<close> and the counters
  \<^verbatim>\<open>processedRows\<close>, \<^verbatim>\<open>skippedRows\<close>, \<^verbatim>\<open>errorRows\<close>.  \<open>existing\<close> is the fetch check
  with its own \<^verbatim>\<open>try\<close>: a failed check counts as "not there".
\<close>

record counters =
  processedRows :: nat
  skippedRows :: nat
  errorRows :: nat

definition existing :: "fetch_response io \<Rightarrow> string \<Rightarrow> world \<Rightarrow> bool \<times> world" where
  "existing fetch vectorId w =
     (case withRetry fetch 3 1000 w of
        (Inr (Some fetchResponse), w') \<Rightarrow>
          (case vectors fetchResponse of None \<Rightarrow> (False, w') | Some vs \<Rightarrow> (vs vectorId \<noteq> None, w'))
      | (Inr None, w') \<Rightarrow> (False, w')
      | (Inl fetchError, w') \<Rightarrow> (False, w'))"

definition prepare_item ::
  "env \<Rightarrow> (string list \<Rightarrow> fetch_response io) \<Rightarrow> metadata \<Rightarrow> item
     \<Rightarrow> vector_record list \<times> counters \<times> world \<Rightarrow> vector_record list \<times> counters \<times> world" where
  \<comment> \<open>the body of \<^verbatim>\<open>for (const item of batch)\<close>\<close>
  "prepare_item env fetch metadata item st = (case st of (batchOperations, c, w) \<Rightarrow>
     let vectorId = generateStableId metadata item in
     case existing (fetch [vectorId]) vectorId w of
       (True, w1) \<Rightarrow> (batchOperations, c\<lparr>skippedRows := skippedRows c + 1\<rparr>, w1)
     | (False, w1) \<Rightarrow>
         (case withRetry (getEmbedding env (item_text item)) 3 1000 w1 of
            (Inl e, w2) \<Rightarrow> (batchOperations, c\<lparr>errorRows := errorRows c + 1\<rparr>, w2)
          | (Inr embedding, w2) \<Rightarrow>
              (batchOperations @ [\<lparr>vr_id = vectorId, vr_values = embedding,
                                    vr_metadata = vector_metadata metadata item\<rparr>],
               c\<lparr>processedRows := processedRows c + 1\<rparr>, w2)))"

definition upload_batch ::
  "(vector_record list \<Rightarrow> unit io) \<Rightarrow> vector_record list \<times> counters \<times> world \<Rightarrow> counters \<times> world" where
  \<comment> \<open>\<^verbatim>\<open>if (batchOperations.length > 0) { try { await withRetry(upsert) } catch { ... } }\<close>\<close>
  "upload_batch upsert st = (case st of (batchOperations, c, w) \<Rightarrow>
     if batchOperations \<noteq> [] then
       (case withRetry (upsert batchOperations) 3 1000 w of
          (Inl batchError, w') \<Rightarrow> (c\<lparr>errorRows := errorRows c + length batchOperations\<rparr>, w')
        | (Inr r, w') \<Rightarrow> (c, w'))
     else (c, w))"

definition process_batch ::
  "env \<Rightarrow> (string list \<Rightarrow> fetch_response io) \<Rightarrow> (vector_record list \<Rightarrow> unit io) \<Rightarrow> metadata
     \<Rightarrow> counters \<times> world \<Rightarrow> item list \<Rightarrow> counters \<times> world" where
  \<comment> \<open>the body of \<^verbatim>\<open>for (const batch of batches)\<close>\<close>
  "process_batch env fetch upsert metadata st batch = (case st of (c, w) \<Rightarrow>
     upload_batch upsert (foldl (\<lambda>s item. prepare_item env fetch metadata item s) ([], c, w) batch))"

definition store_items ::
  "env \<Rightarrow> (string list \<Rightarrow> fetch_response io) \<Rightarrow> (vector_record list \<Rightarrow> unit io) \<Rightarrow> metadata
     \<Rightarrow> item list \<Rightarrow> world \<Rightarrow> counters \<times> world" where
  "store_items env fetch upsert metadata items w =
     foldl (process_batch env fetch upsert metadata)
       (\<lparr>processedRows = 0, skippedRows = 0, errorRows = 0\<rparr>, w) (chunk 10 items)"

definition ingest_stats :: "item list \<Rightarrow> counters \<Rightarrow> stats" where
  "ingest_stats items c =
     \<lparr>totalItems = length items, processed = processedRows c, skipped = skippedRows c,
      errors = errorRows c\<rparr>"

definition processExcelRFP :: "env \<Rightarrow> byte list \<Rightarrow> metadata \<Rightarrow> ingest_result io" where
  "processExcelRFP env buffer metadata w =
     (case xlsx_load env buffer of
        Inl e \<Rightarrow> (Inl e, w)
      | Inr workbook \<Rightarrow>
          (case processedData workbook of
             Inl e \<Rightarrow> (Inl e, w)
           | Inr items \<Rightarrow>
               if MOCK_MODE env then
                 (Inr \<lparr>ir_success = True,
                       ir_stats = \<lparr>totalItems = length items, processed = length items,
                                   skipped = 0, errors = 0\<rparr>,
                       ir_sheets = map ws_name workbook, ir_mockMode = Some True\<rparr>, w)
               else
                 (case store_items env (pineconeApi_fetch env) (pineconeApi_upsert env) metadata items w of
                    (c, w') \<Rightarrow>
                      (Inr \<lparr>ir_success = True, ir_stats = ingest_stats items c,
                            ir_sheets = map ws_name workbook, ir_mockMode = None\<rparr>, w'))))"

definition processExcelRFP_sdk :: "env \<Rightarrow> byte list \<Rightarrow> metadata \<Rightarrow> ingest_result io" where
  \<comment> \<open>the SDK revision: no \<^verbatim>\<open>MOCK_MODE\<close>; \<^verbatim>\<open>pineconeIndex\<close> selects the client\<close>
  "processExcelRFP_sdk env buffer metadata w =
     (case xlsx_load env buffer of
        Inl e \<Rightarrow> (Inl e, w)
      | Inr workbook \<Rightarrow>
          (case processedData workbook of
             Inl e \<Rightarrow> (Inl e, w)
           | Inr items \<Rightarrow>
               (case store_items env
                       (if pineconeIndex env then pineconeIndex_fetch env else pineconeApi_fetch env)
                       (if pineconeIndex env then pineconeIndex_upsert env else pineconeApi_upsert env)
                       metadata items w of
                  (c, w') \<Rightarrow>
                    (Inr \<lparr>ir_success = True, ir_stats = ingest_stats items c,
                          ir_sheets = map ws_name workbook, ir_mockMode = None\<rparr>, w'))))"

section \<open>\<^verbatim>\<open>queryRFPData\<close>\<close>

definition greeting_answer :: string where
  "greeting_answer = ''Hello! I'm your RFP Assistant. I can help you find information in your RFP documents. How can I assist you today?''"

definition no_match_answer :: string where
  "no_match_answer = ''I couldn't find any relevant information for your question in the RFP documents. Could you try rephrasing your question or ask about a different aspect of the RFP?''"

definition fallback_answer :: string where
  "fallback_answer = ''I'm here to help with your RFP questions, but I'm having trouble connecting to my database right now. Could you please try again in a moment?''"


definition greeting_words :: "string list" where
  "greeting_words = [''hi'', ''hello'', ''hey'', ''greetings'', ''howdy'']"

definition isGreeting :: "string \<Rightarrow> bool" where
  \<comment> \<open>\<^verbatim>\<open>question.toLowerCase().match(/^(hi|hello|hey|greetings|howdy)[\s\.,!]*$/)\<close>\<close>
  "isGreeting question = (let q = toLowerCase question in
     list_ex (\<lambda>g. take (length g) q = g
                 \<and> list_all (\<lambda>c. js_whitespace c \<or> c \<in> set ''.,!'') (drop (length g) q))
       greeting_words)"

definition includes_greeting :: "string \<Rightarrow> bool" where
  \<comment> \<open>the SDK revision's test: \<^verbatim>\<open>includes('hi') || includes('hello') || includes('hey')\<close>\<close>
  "includes_greeting question =
     (js_includes (toLowerCase question) ''hi'' \<or> js_includes (toLowerCase question) ''hello''
      \<or> js_includes (toLowerCase question) ''hey'')"

definition truthy :: "string option \<Rightarrow> string option" where
  \<comment> \<open>a string or \<^verbatim>\<open>undefined\<close> as a condition: the empty string is falsy\<close>
  "truthy v = (case v of None \<Rightarrow> None | Some s \<Rightarrow> if s = [] then None else Some s)"

definition filterConditions :: "string obj \<Rightarrow> filter_conditions" where
  "filterConditions filters =
     (if filters \<noteq> [] then
        \<lparr>fc_category = map_option Equals (truthy (map_of filters ''category'')),
         fc_sheetName = map_option Equals (truthy (map_of filters ''sheetName''))\<rparr>
      else \<lparr>fc_category = Some Exists, fc_sheetName = None\<rparr>)"


definition system_prompt_sdk :: string where
  "system_prompt_sdk = join [CHR 0x0A]
     [''You are an RFP assistant specialized in analyzing historical RFP data'',
      '''',
      ''For general queries and greetings:'',
      ''- Respond in a friendly, professional manner'',
      ''- Introduce yourself as the RFP Assistant'',
      ''- Be precise with the answers unless asked you to explain.'',
      '''',
      ''For RFP-specific queries:'',
      ''- Provide precise answers based on the provided context'',
      ''- Include specific details from the data when relevant but not quote from where you are finding the information'',
      ''- Highlight key information and requirements'',
      ''- Always maintain a professional yet friendly tone'',
      ''- If the question is not RFP-related, engage appropriately while gently guiding the conversation toward RFP topics'']"

definition user_prompt :: "(string \<times> string \<times> string) list \<Rightarrow> string \<Rightarrow> string" where
  \<comment> \<open>the user message, from the sheet name, category and text of each context\<close>
  "user_prompt cs question =
     ''Context from RFP data:'' @ [CHR 0x0A]
     @ join [CHR 0x0A, CHR 0x0A]
         (map (\<lambda>(sheetName, category, txt).
                 ''[Sheet: '' @ sheetName @ '', Category: '' @ category @ '']'' @ [CHR 0x0A] @ txt) cs)
     @ [CHR 0x0A, CHR 0x0A] @ ''Question: '' @ question"




definition context_of_sdk :: "env \<Rightarrow> match \<Rightarrow> error + source_context_sdk" where
  \<comment> \<open>the SDK revision: \<^verbatim>\<open>JSON.parse(match.metadata.originalData)\<close>, unguarded; the
      argument is coerced to a string first\<close>
  "context_of_sdk env m =
     (case JSON_parse env (case md_originalData (m_metadata m) of
                              None \<Rightarrow> ''undefined'' | Some (MString s) \<Rightarrow> s | Some (MOther s) \<Rightarrow> s) of
        Inl e \<Rightarrow> Inl e
      | Inr j \<Rightarrow>
          Inr \<lparr>scs_text = md_text (m_metadata m), scs_originalData = j,
               scs_category = md_category (m_metadata m),
               scs_sheetName = md_sheetName (m_metadata m), scs_similarity = m_score m\<rparr>)"

definition answer_from :: "(error + string list option) \<times> world \<Rightarrow> 'c list \<Rightarrow> (error + 'c query_result) \<times> world" where
  \<comment> \<open>\<^verbatim>\<open>return {answer: completion.choices[0].message.content, sources: contexts}\<close>\<close>
  "answer_from completion contexts = (case completion of
       (Inl e, w) \<Rightarrow> (Inl e, w)
     | (Inr None, w) \<Rightarrow> (Inl (TypeError ''Cannot read properties of undefined (reading 'choices')''), w)
     | (Inr (Some []), w) \<Rightarrow> (Inl (TypeError ''Cannot read properties of undefined (reading 'message')''), w)
     | (Inr (Some (c # cs)), w) \<Rightarrow>
         (Inr \<lparr>qr_answer = c, qr_sources = contexts, qr_mockMode = None, qr_error = None\<rparr>, w))"

definition canned :: "string \<Rightarrow> 'c query_result" where
  "canned a = \<lparr>qr_answer = a, qr_sources = [], qr_mockMode = None, qr_error = None\<rparr>"


definition prompt_messages_sdk :: "source_context_sdk list \<Rightarrow> string \<Rightarrow> chat_message list" where
  \<comment> \<open>a field that is \<^verbatim>\<open>undefined\<close> is rendered by the template literal as such\<close>
  "prompt_messages_sdk contexts question =
     [\<lparr>role = ''system'', content = system_prompt_sdk\<rparr>,
      \<lparr>role = ''user'',
       content = user_prompt
         (map (\<lambda>c. (template (scs_sheetName c), template (scs_category c), template (scs_text c)))
            contexts) question\<rparr>]"



definition query_sdk_first :: "env \<Rightarrow> embedding \<Rightarrow> filter_conditions \<Rightarrow> world \<Rightarrow> (error + query_response option) \<times> world" where
  \<comment> \<open>the SDK revision's inner \<^verbatim>\<open>try\<close>: the SDK client if there is one, and the direct API
      when that throws\<close>
  "query_sdk_first env queryEmbedding fc w =
     (case (if pineconeIndex env then withRetry (pineconeIndex_query env queryEmbedding 5 fc) 3 1000 w
            else (Inl (Error ''SDK not initialized, using direct API''), w)) of
        (Inl sdkError, w') \<Rightarrow> withRetry (pineconeApi_query env queryEmbedding 5 fc) 3 1000 w'
      | (Inr queryResponse, w') \<Rightarrow> (Inr queryResponse, w'))"

definition queryRFPData_sdk_try :: "env \<Rightarrow> string \<Rightarrow> string obj \<Rightarrow> (source_context_sdk query_result) io" where
  "queryRFPData_sdk_try env question filters w =
     (case withRetry (getEmbedding env question) 3 1000 w of
        (Inl e, w1) \<Rightarrow> (Inl e, w1)
      | (Inr None, w1) \<Rightarrow>
          (Inl (TypeError ''Cannot read properties of undefined (reading 'length')''), w1)
      | (Inr (Some queryEmbedding), w1) \<Rightarrow>
          (case query_sdk_first env queryEmbedding (filterConditions filters) w1 of
             (Inl e, w2) \<Rightarrow> (Inl e, w2)
           | (Inr None, w2) \<Rightarrow>
               (Inl (TypeError ''Cannot read properties of undefined (reading 'matches')''), w2)
           | (Inr (Some queryResponse), w2) \<Rightarrow>
               if matches queryResponse = None \<or> matches queryResponse = Some [] then
                 (if includes_greeting question then (Inr (canned greeting_answer), w2)
                  else (Inr (canned no_match_answer), w2))
               else
                 (case traverse (context_of_sdk env) (the (matches queryResponse)) of
                    Inl e \<Rightarrow> (Inl e, w2)
                  | Inr contexts \<Rightarrow>
                      answer_from
                        (withRetry (chat_completions env (prompt_messages_sdk contexts question)) 3 1000 w2)
                        contexts)))"

definition queryRFPData_sdk :: "env \<Rightarrow> string \<Rightarrow> string obj \<Rightarrow> (source_context_sdk query_result) io" where
  "queryRFPData_sdk env question filters w =
     (case queryRFPData_sdk_try env question filters w of
        (Inr result, w') \<Rightarrow> (Inr result, w')
      | (Inl error, w') \<Rightarrow>
          if includes_greeting question then (Inr (canned greeting_answer), w')
          else
            (Inr \<lparr>qr_answer = fallback_answer, qr_sources = [], qr_mockMode = None,
                  qr_error = Some (message error)\<rparr>, w'))"

section \<open>A store that keeps what it is given, and sample inputs\<close>

text \<open>
  What a trace has upserted through the direct API, and the store that is reachable and
  shows exactly that: every point fetch answers, and finds an identifier if and only if an
  earlier upsert carried it; every upsert is accepted.
\<close>

fun upserted :: "world \<Rightarrow> string list" where
  "upserted [] = []"
| "upserted (Request (ApiUpsert vs) # w) = map vr_id vs @ upserted w"
| "upserted (ev # w) = upserted w"




definition sample_workbook :: workbook where
  "sample_workbook =
     [\<lparr>ws_name = ''Requirements'', ws_header = [Text ''Requirement'', Text ''Category''],
       ws_rows = [(1, [(1, ''Requirement''), (2, ''Category'')]),
                  (2, [(1, ''Provide SSO''), (2, ''Security'')])]\<rparr>]"

definition sample_item :: item where
  "sample_item =
     \<lparr>item_category = ''Security'', item_sheetName = ''Requirements'',
      item_text = ''Requirement: Provide SSO'' @ [CHR 0x0A] @ ''Category: Security'',
      item_originalData = [(''Requirement'', ''Provide SSO''), (''Category'', ''Security'')]\<rparr>"


text \<open>
  A sample environment: the spreadsheet above, the store of \<open>reliable_store\<close>, an embedding
  service that answers with a one-component vector, a completion service that answers,
  no SDK client.  Its \<^verbatim>\<open>JSON.parse\<close> stands in for the real one on the strings the
  examples use: it accepts \<^verbatim>\<open>{}\<close> and rejects everything else.
\<close>

definition sample_env :: env where
  "sample_env =
     \<lparr>MOCK_MODE = False, pineconeIndex = False,
      xlsx_load = (\<lambda>buffer. Inr sample_workbook),
      JSON_parse = (\<lambda>s. if s = ''{}'' then Inr (JObject []) else Inl (Error ''Unexpected token in JSON'')),
      embeddings_create = (\<lambda>h input. Inr [[0x3FF0000000000000]]),
      chat_completions_create = (\<lambda>h messages. Inr [''Single sign-on is required.'']),
      api_fetch = (\<lambda>h ids. Inr \<lparr>vectors = Some (\<lambda>i. if i \<in> set ids \<and> i \<in> set (upserted h)
                     then Some \<lparr>vr_id = i, vr_values = None, vr_metadata = []\<rparr> else None)\<rparr>),
      api_upsert = (\<lambda>h vs. Inr ()),
      api_query = (\<lambda>h v topK fc. Inr \<lparr>matches = Some []\<rparr>),
      sdk_fetch = (\<lambda>h ids. Inl (Error ''SDK not initialized'')),
      sdk_upsert = (\<lambda>h vs. Inl (Error ''SDK not initialized'')),
      sdk_query = (\<lambda>h v topK fc. Inl (Error ''SDK not initialized''))\<rparr>"

definition sample_match :: match where
  \<comment> \<open>a stored match whose \<^verbatim>\<open>originalData\<close> is not JSON\<close>
  "sample_match =
     \<lparr>m_score = 0x3FEC000000000000,
      m_metadata = \<lparr>md_text = Some ''Requirement: Provide SSO'', md_originalData = Some (MString ''{bad''),
                    md_category = Some ''Security'', md_sheetName = Some ''Requirements''\<rparr>\<rparr>"

definition matching_env :: env where
  \<comment> \<open>the sample environment with a store that answers every query with that match\<close>
  "matching_env = sample_env\<lparr>api_query := \<lambda>h v topK fc. Inr \<lparr>matches = Some [sample_match]\<rparr>\<rparr>"


section \<open>Properties\<close>

subsection \<open>The hash against the RFC's test suite\<close>

lemma md5_hex_empty: "md5_hex '''' = ''d41d8cd98f00b204e9800998ecf8427e''"
  by code_simp

lemma md5_hex_abc: "md5_hex ''abc'' = ''900150983cd24fb0d6963f7d28e17f72''"
  by code_simp

subsection \<open>\<^verbatim>\<open>withRetry\<close>\<close>

lemma withRetry_loop_done:
  "\<not> i < maxRetries \<Longrightarrow> withRetry_loop operation maxRetries i delay w = (Inr None, w)"
  by (simp add: withRetry_loop.simps)

lemma withRetry_loop_success:
  "i < maxRetries \<Longrightarrow> operation w = (Inr v, w') \<Longrightarrow>
   withRetry_loop operation maxRetries i delay w = (Inr (Some v), w')"
  by (simp add: withRetry_loop.simps)

lemma withRetry_loop_last:
  "i = maxRetries - 1 \<Longrightarrow> operation w = (Inl e, w') \<Longrightarrow>
   withRetry_loop operation maxRetries i delay w = (Inl e, w')"
  by (simp add: withRetry_loop.simps)

lemma withRetry_loop_again:
  "i < maxRetries - 1 \<Longrightarrow> operation w = (Inl e, w') \<Longrightarrow>
   withRetry_loop operation maxRetries i delay w =
   withRetry_loop operation maxRetries (i + 1) (delay * 2) (setTimeout delay w')"
  by (simp add: withRetry_loop.simps)


lemma slept_append: "slept (w @ w') = slept w + slept w'"
  by (induction w rule: slept.induct) simp_all

lemma withRetry_loop_all_fail:
  "n = nat (maxRetries - i) \<Longrightarrow> i < maxRetries \<Longrightarrow>
   (\<And>k. k < n \<Longrightarrow> fst (operation (attempt_state operation delay w k)) = Inl (e k)) \<Longrightarrow>
   withRetry_loop operation maxRetries i delay w
     = (Inl (e (n - 1)), snd (operation (attempt_state operation delay w (n - 1))))"
proof (induction n arbitrary: i delay w e)
  case 0
  then show ?case by simp
next
  case (Suc n)
  have first: "operation w = (Inl (e 0), snd (operation w))"
    using Suc.prems(3) [of 0] by (simp add: prod_eq_iff)
  show ?case
  proof (cases "i = maxRetries - 1")
    case True
    then have "n = 0" using Suc.prems(1) by simp
    then show ?thesis using True first by (simp add: withRetry_loop_last)
  next
    case False
    then have lt: "i < maxRetries - 1" using Suc.prems(2) by simp
    then obtain m where n: "n = Suc m" using Suc.prems(1) by (cases n) auto
    have step: "withRetry_loop operation maxRetries i delay w =
        withRetry_loop operation maxRetries (i + 1) (delay * 2) (setTimeout delay (snd (operation w)))"
      using lt first by (rule withRetry_loop_again)
    have later: "fst (operation (attempt_state operation (delay * 2)
        (setTimeout delay (snd (operation w))) k)) = Inl (e (Suc k))" if "k < n" for k
      using Suc.prems(3) [of "Suc k"] that by simp
    have n_eq: "n = nat (maxRetries - (i + 1))" using Suc.prems(1) by linarith
    have lt': "i + 1 < maxRetries" using lt by simp
    have "withRetry_loop operation maxRetries (i + 1) (delay * 2) (setTimeout delay (snd (operation w)))
        = (Inl (e (Suc (n - 1))),
           snd (operation (attempt_state operation (delay * 2)
             (setTimeout delay (snd (operation w))) (n - 1))))"
      using Suc.IH [where e = "\<lambda>k. e (Suc k)", OF n_eq lt' later] by simp
    then show ?thesis using step n by simp
  qed
qed

lemma attempt_state_call:
  "attempt_state (call r outcome) delay w k = w @ failed_attempts r delay k"
  by (induction k arbitrary: delay w) (simp_all add: call_def setTimeout_def)

lemma withRetry_fails_twice:
  assumes "operation w = (Inl e1, w1)"
    and "operation (setTimeout delay w1) = (Inl e2, w2)"
    and "operation (setTimeout (delay * 2) w2) = (Inr v, w3)"
  shows "withRetry operation 3 delay w = (Inr (Some v), w3)"
proof -
  have "withRetry_loop operation 3 0 delay w
      = withRetry_loop operation 3 1 (delay * 2) (setTimeout delay w1)"
    using withRetry_loop_again [of 0 3 operation w e1 w1 delay] assms(1) by simp
  also have "\<dots> = withRetry_loop operation 3 2 (delay * 2 * 2) (setTimeout (delay * 2) w2)"
    using withRetry_loop_again [of 1 3 operation "setTimeout delay w1" e2 w2 "delay * 2"] assms(2)
    by simp
  also have "\<dots> = (Inr (Some v), w3)"
    using withRetry_loop_success [of 2 3 operation "setTimeout (delay * 2) w2" v w3 "delay * 2 * 2"]
      assms(3) by simp
  finally show ?thesis by (simp add: withRetry_def)
qed

text \<open>
  C9.  An operation that fails on its first two invocations and succeeds on its third:
  \<open>withRetry\<close> with \<open>maxRetries = 3\<close> invokes it three times, waiting \<open>delay\<close> after the
  first failure and \<open>2 * delay\<close> after the second, and returns the third invocation's
  result.  When the operation is a single request, the trace gains exactly the three
  requests and the two timers, which add up to \<open>delay + 2 * delay\<close> before the last attempt
  (3000 ms for the initial delay of 1000 ms).  An operation that fails on all \<open>maxRetries\<close>
  invocations: \<open>withRetry\<close> throws the error of the last invocation.
\<close>

theorem withRetry_backoff:
  fixes operation :: "'a io" and outcome :: "world \<Rightarrow> error + 'b"
  shows "(operation w = (Inl e1, w1) \<and> operation (setTimeout delay w1) = (Inl e2, w2)
          \<and> operation (setTimeout (delay * 2) w2) = (Inr v, w3) \<longrightarrow>
          withRetry operation 3 delay w = (Inr (Some v), w3))
       \<and> (outcome w = Inl e1 \<and> outcome (w @ [Request r, SetTimeout delay]) = Inl e2
          \<and> outcome (w @ [Request r, SetTimeout delay, Request r, SetTimeout (delay * 2)]) = Inr v' \<longrightarrow>
          withRetry (call r outcome) 3 delay w
            = (Inr (Some v'),
               w @ [Request r, SetTimeout delay, Request r, SetTimeout (delay * 2)] @ [Request r])
          \<and> slept (w @ [Request r, SetTimeout delay, Request r, SetTimeout (delay * 2)])
            = slept w + (delay + 2 * delay))
       \<and> (0 < maxRetries
          \<and> (\<forall>k < nat maxRetries. fst (operation (attempt_state operation delay w k)) = Inl (err k)) \<longrightarrow>
          withRetry operation maxRetries delay w
            = (Inl (err (nat maxRetries - 1)),
               snd (operation (attempt_state operation delay w (nat maxRetries - 1)))))"
proof (intro conjI impI)
  assume "operation w = (Inl e1, w1) \<and> operation (setTimeout delay w1) = (Inl e2, w2)
      \<and> operation (setTimeout (delay * 2) w2) = (Inr v, w3)"
  then show "withRetry operation 3 delay w = (Inr (Some v), w3)"
    using withRetry_fails_twice [of operation w e1 w1 delay e2 w2 v w3] by simp
next
  assume "outcome w = Inl e1 \<and> outcome (w @ [Request r, SetTimeout delay]) = Inl e2
      \<and> outcome (w @ [Request r, SetTimeout delay, Request r, SetTimeout (delay * 2)]) = Inr v'"
  then show "withRetry (call r outcome) 3 delay w
      = (Inr (Some v'), w @ [Request r, SetTimeout delay, Request r, SetTimeout (delay * 2)] @ [Request r])"
    using withRetry_fails_twice [of "call r outcome" w e1 "w @ [Request r]" delay e2
        "w @ [Request r, SetTimeout delay, Request r]" v'
        "w @ [Request r, SetTimeout delay, Request r, SetTimeout (delay * 2), Request r]"]
    by (simp add: call_def setTimeout_def)
next
  show "slept (w @ [Request r, SetTimeout delay, Request r, SetTimeout (delay * 2)])
      = slept w + (delay + 2 * delay)"
    by (simp add: slept_append)
next
  assume "0 < maxRetries
    \<and> (\<forall>k < nat maxRetries. fst (operation (attempt_state operation delay w k)) = Inl (err k))"
  then show "withRetry operation maxRetries delay w
      = (Inl (err (nat maxRetries - 1)),
         snd (operation (attempt_state operation delay w (nat maxRetries - 1))))"
    unfolding withRetry_def
    using withRetry_loop_all_fail [of "nat maxRetries" maxRetries 0 operation delay w err]
    by simp
qed

theorem withRetry_backoff_witness:
  "withRetry (call (ApiFetch [''id''])
       (\<lambda>h. if length h < 4 then Inl (Error ''timeout'') else Inr (7 :: nat))) 3 1000 []
     = (Inr (Some 7),
        [Request (ApiFetch [''id'']), SetTimeout 1000, Request (ApiFetch [''id'']), SetTimeout 2000,
         Request (ApiFetch [''id''])])
   \<and> slept [Request (ApiFetch [''id'']), SetTimeout 1000, Request (ApiFetch [''id'']), SetTimeout 2000]
     = 3000
   \<and> withRetry (call (ApiFetch [''id''])
       (\<lambda>h. (Inl (Error (if length h = 0 then ''first'' else if length h = 2 then ''second'' else ''third''))
               :: error + nat))) 3 1000 []
     = (Inl (Error ''third''),
        [Request (ApiFetch [''id'']), SetTimeout 1000, Request (ApiFetch [''id'']), SetTimeout 2000,
         Request (ApiFetch [''id''])])"
  using withRetry_backoff [of
      "call (ApiFetch [''id'']) (\<lambda>h. if length h < 4 then Inl (Error ''timeout'') else Inr (7 :: nat))"
      "[]" "Error ''timeout''" "[Request (ApiFetch [''id''])]" 1000 "Error ''timeout''"
      "[Request (ApiFetch [''id'']), SetTimeout 1000, Request (ApiFetch [''id''])]" 7
      "[Request (ApiFetch [''id'']), SetTimeout 1000, Request (ApiFetch [''id'']), SetTimeout 2000,
        Request (ApiFetch [''id''])]"
      "\<lambda>h. if length h < 4 then Inl (Error ''timeout'') else Inr (7 :: nat)"
      "ApiFetch [''id'']" 7 3 "\<lambda>k. Error ''timeout''"]
    withRetry_backoff [of
      "call (ApiFetch [''id''])
         (\<lambda>h. (Inl (Error (if length h = 0 then ''first'' else if length h = 2 then ''second'' else ''third''))
               :: error + nat))"
      "[]" "Error ''first''" "[Request (ApiFetch [''id''])]" 1000 "Error ''second''"
      "[Request (ApiFetch [''id'']), SetTimeout 1000, Request (ApiFetch [''id''])]" 0 "[]"
      "\<lambda>h. (Inl (Error ''unused'') :: error + nat)"
      "ApiFetch [''id'']" 0 3
      "\<lambda>k. Error (if k = 0 then ''first'' else if k = 1 then ''second'' else ''third'')"]
  by (simp add: call_def setTimeout_def attempt_state_call numeral_3_eq_3 less_Suc_eq)

text \<open>
  C10.  With \<open>maxRetries \<le> 0\<close> the loop body is never entered: the operation is not
  invoked (the trace is unchanged), nothing is thrown, and the result is \<^verbatim>\<open>undefined\<close>.
\<close>

theorem withRetry_no_attempts:
  "maxRetries \<le> 0 \<Longrightarrow> withRetry operation maxRetries delay w = (Inr None, w)"
  by (simp add: withRetry_def withRetry_loop_done)

theorem withRetry_no_attempts_witness:
  "withRetry (call (EmbeddingsCreate ''q'') (\<lambda>h. Inl (Error ''unreachable'') :: error + nat)) 0 1000 []
     = (Inr None, [])"
  using withRetry_no_attempts [of 0 "call (EmbeddingsCreate ''q'') (\<lambda>h. Inl (Error ''unreachable'') :: error + nat)" 1000 "[]"]
  by simp

subsection \<open>\<^verbatim>\<open>generateStableId\<close>\<close>







subsection \<open>Extraction\<close>

lemma sheets_sample: "map ws_name sample_workbook = [''Requirements'']"
  by (simp add: sample_workbook_def)

lemma processedData_sample: "processedData sample_workbook = Inr [sample_item]"
  by (simp add: sample_workbook_def sample_item_def processedData_def worksheet_items_def
      jsonData_def rowData_def groupBy_def property_def template_def sheet_items_def
      combinedText_def obj_entries_def array_index_def digit_value_def trim_def js_whitespace_def)

lemma obj_set_cases: "(k', v') \<in> set (obj_set ob k v) \<Longrightarrow> (k', v') = (k, v) \<or> (k', v') \<in> set ob"
  by (induction ob k v rule: obj_set.induct) (auto split: if_splits)

lemma groupBy_keys:
  "(k, xs) \<in> set (foldl (\<lambda>result x. case map_of result (f x) of
                          Some ys \<Rightarrow> obj_set result (f x) (ys @ [x])
                        | None \<Rightarrow> obj_set result (f x) [x]) acc rows) \<Longrightarrow>
   \<forall>(k, xs) \<in> set acc. \<forall>x \<in> set xs. f x = k \<Longrightarrow> x \<in> set xs \<Longrightarrow> f x = k"
proof (induction rows arbitrary: acc)
  case Nil
  then show ?case by auto
next
  case (Cons r rows)
  let ?acc = "case map_of acc (f r) of Some ys \<Rightarrow> obj_set acc (f r) (ys @ [r])
      | None \<Rightarrow> obj_set acc (f r) [r]"
  have "\<forall>(k, xs) \<in> set ?acc. \<forall>x \<in> set xs. f x = k"
  proof (cases "map_of acc (f r)")
    case None
    then show ?thesis using Cons.prems(2) by (auto dest!: obj_set_cases)
  next
    case (Some ys)
    then have "(f r, ys) \<in> set acc" by (rule map_of_SomeD)
    then have "\<forall>x \<in> set ys. f x = f r" using Cons.prems(2) by auto
    then show ?thesis using Cons.prems(2) Some by (auto dest!: obj_set_cases)
  qed
  from Cons.IH [OF _ this Cons.prems(3)] Cons.prems(1) show ?case by simp
qed

lemma set_obj_entries: "set (obj_entries ob) = set ob"
  by (auto simp add: obj_entries_def)

lemma worksheet_items_category:
  assumes "worksheet_items worksheet = Inr items" and "item \<in> set items"
    and "map_of (item_originalData item) ''Category'' = None"
  shows "item_category item = ''undefined''"
proof -
  from assms(1) obtain headers where
    items: "items = concat (map (sheet_items (ws_name worksheet))
       (obj_entries (groupBy (property ''Category'') (jsonData headers (ws_rows worksheet)))))"
    by (auto simp add: worksheet_items_def split: sum.splits)
  with assms(2) obtain k rows where
    grp: "(k, rows) \<in> set (groupBy (property ''Category'') (jsonData headers (ws_rows worksheet)))"
    and it: "item \<in> set (sheet_items (ws_name worksheet) (k, rows))"
    by (auto simp add: set_obj_entries)
  from it have row: "item_originalData item \<in> set rows"
    and cat: "item_category item = (if k = [] then ''uncategorized'' else k)"
    by (auto simp add: sheet_items_def split: if_splits)
  have "property ''Category'' (item_originalData item) = k"
    using groupBy_keys [OF grp [unfolded groupBy_def] _ row] by simp
  with assms(3) have "k = ''undefined''" by (simp add: property_def template_def)
  with cat show ?thesis by simp
qed

lemma traverse_Inr: "traverse f xs = Inr ys \<Longrightarrow> y \<in> set ys \<Longrightarrow> \<exists>x \<in> set xs. f x = Inr y"
  by (induction xs arbitrary: ys) (auto split: sum.splits)

text \<open>
  C8.  A row whose mapping has no \<open>Category\<close> key is filed by \<^verbatim>\<open>_.groupBy\<close> under the
  property name \<open>undefined\<close>, which is a non-empty string, so
  \<^verbatim>\<open>category || 'uncategorized'\<close> keeps it: every record extracted from such a row has
  the category \<open>undefined\<close>, not \<open>uncategorized\<close>.  Only a \<open>Category\<close> cell whose text is
  blank reaches the \<open>uncategorized\<close> default.
\<close>

theorem missing_Category_is_undefined:
  assumes "processedData workbook = Inr items" and "item \<in> set items"
    and "map_of (item_originalData item) ''Category'' = None"
  shows "item_category item = ''undefined''"
proof -
  from assms(1) obtain xs where xs: "traverse worksheet_items workbook = Inr xs" "items = concat xs"
    by (auto simp add: processedData_def split: sum.splits)
  with assms(2) obtain ys where "ys \<in> set xs" "item \<in> set ys" by auto
  with traverse_Inr [OF xs(1)] obtain worksheet where "worksheet_items worksheet = Inr ys" by blast
  then show ?thesis using \<open>item \<in> set ys\<close> assms(3) by (rule worksheet_items_category)
qed

theorem missing_Category_is_undefined_witness:
  "processedData
     [\<lparr>ws_name = ''Requirements'', ws_header = [Text ''Requirement''],
       ws_rows = [(1, [(1, ''Requirement'')]), (2, [(1, ''Offer 24x7 support'')])]\<rparr>]
   = Inr [\<lparr>item_category = ''undefined'', item_sheetName = ''Requirements'',
           item_text = ''Requirement: Offer 24x7 support'',
           item_originalData = [(''Requirement'', ''Offer 24x7 support'')]\<rparr>]
   \<and> map_of [(''Requirement'', ''Offer 24x7 support'')] ''Category'' = None
   \<and> ''undefined'' \<noteq> ''uncategorized''"
  using missing_Category_is_undefined [of
      "[\<lparr>ws_name = ''Requirements'', ws_header = [Text ''Requirement''],
         ws_rows = [(1, [(1, ''Requirement'')]), (2, [(1, ''Offer 24x7 support'')])]\<rparr>]"
      "[\<lparr>item_category = ''undefined'', item_sheetName = ''Requirements'',
           item_text = ''Requirement: Offer 24x7 support'',
           item_originalData = [(''Requirement'', ''Offer 24x7 support'')]\<rparr>]"
      "\<lparr>item_category = ''undefined'', item_sheetName = ''Requirements'',
           item_text = ''Requirement: Offer 24x7 support'',
           item_originalData = [(''Requirement'', ''Offer 24x7 support'')]\<rparr>"]
  by (simp add: processedData_def worksheet_items_def
      jsonData_def rowData_def groupBy_def property_def template_def sheet_items_def
      combinedText_def obj_entries_def array_index_def digit_value_def trim_def js_whitespace_def)

lemma blank_Category_is_uncategorized:
  "processedData
     [\<lparr>ws_name = ''Requirements'', ws_header = [Text ''Requirement'', Text ''Category''],
       ws_rows = [(1, [(1, ''Requirement''), (2, ''Category'')]),
                  (2, [(1, ''Offer 24x7 support''), (2, '' '')])]\<rparr>]
   = Inr [\<lparr>item_category = ''uncategorized'', item_sheetName = ''Requirements'',
           item_text = ''Requirement: Offer 24x7 support'',
           item_originalData = [(''Requirement'', ''Offer 24x7 support''), (''Category'', [])]\<rparr>]"
  by (simp add: processedData_def worksheet_items_def
      jsonData_def rowData_def groupBy_def property_def template_def sheet_items_def
      combinedText_def obj_entries_def array_index_def digit_value_def trim_def js_whitespace_def)

subsection \<open>\<^verbatim>\<open>processExcelRFP\<close> in degraded mode\<close>

text \<open>
  C4.  With \<^verbatim>\<open>MOCK_MODE\<close> set, once the workbook has loaded and the records are
  extracted (errors of either step are rethrown, in every mode), the result is
  \<open>success = true\<close>, \<open>mockMode = true\<close> and the statistics \<open>{n, n, 0, 0}\<close> for the \<open>n\<close>
  extracted records, and the trace is unchanged: no fetch, no embedding, no upsert.
\<close>

theorem processExcelRFP_mock_mode:
  "MOCK_MODE env \<Longrightarrow> xlsx_load env buffer = Inr workbook \<Longrightarrow> processedData workbook = Inr items \<Longrightarrow>
   processExcelRFP env buffer metadata w =
     (Inr \<lparr>ir_success = True,
           ir_stats = \<lparr>totalItems = length items, processed = length items, skipped = 0, errors = 0\<rparr>,
           ir_sheets = map ws_name workbook, ir_mockMode = Some True\<rparr>, w)"
  by (simp add: processExcelRFP_def)

theorem processExcelRFP_mock_mode_witness:
  "processExcelRFP (sample_env\<lparr>MOCK_MODE := True\<rparr>) [80, 75, 3, 4] [(''rfpId'', ''rfp1'')] [] =
     (Inr \<lparr>ir_success = True,
           ir_stats = \<lparr>totalItems = 1, processed = 1, skipped = 0, errors = 0\<rparr>,
           ir_sheets = [''Requirements''], ir_mockMode = Some True\<rparr>, [])"
  using processExcelRFP_mock_mode [of "sample_env\<lparr>MOCK_MODE := True\<rparr>" "[80, 75, 3, 4]"
      sample_workbook "[sample_item]" "[(''rfpId'', ''rfp1'')]" "[]"]
  by (simp add: processedData_sample sheets_sample) (simp add: sample_env_def)

subsection \<open>\<^verbatim>\<open>queryRFPData\<close>\<close>
















subsection \<open>Ingesting the same spreadsheet again\<close>





















lemma processExcelRFP_sdk_without_client:
  "\<not> pineconeIndex env \<Longrightarrow> \<not> MOCK_MODE env \<Longrightarrow>
   processExcelRFP_sdk env buffer metadata w = processExcelRFP env buffer metadata w"
  by (simp add: processExcelRFP_sdk_def processExcelRFP_def split: sum.splits)

subsection \<open>The SDK revision of \<^verbatim>\<open>queryRFPData\<close>\<close>

text \<open>
  The SDK revision has no greeting pattern, no guarded parse and a different
  \<^verbatim>\<open>catch\<close> block.  A greeting is embedded and looked up like any question; a question
  that merely contains \<open>hi\<close> (\<open>Which\<close>) gets the greeting when nothing matches or
  when something throws; a stored \<^verbatim>\<open>originalData\<close> that \<^verbatim>\<open>JSON.parse\<close> rejects turns the
  whole response into the fallback.
\<close>

lemmas query_sdk_eval =
  queryRFPData_sdk_def queryRFPData_sdk_try_def query_sdk_first_def includes_greeting_def
  toLowerCase_def lower_char_def withRetry_def withRetry_loop.simps getEmbedding_def call_def
  setTimeout_def pineconeApi_query_def filterConditions_def canned_def

lemma queryRFPData_sdk_greeting_embeds:
  "queryRFPData_sdk sample_env ''hi'' [] [] =
     (Inr \<lparr>qr_answer = greeting_answer, qr_sources = [], qr_mockMode = None, qr_error = None\<rparr>,
      [Request (EmbeddingsCreate ''hi''),
       Request (ApiQuery [0x3FF0000000000000] 5 \<lparr>fc_category = Some Exists, fc_sheetName = None\<rparr>)])"
  by (simp add: query_sdk_eval sample_env_def)

lemma queryRFPData_sdk_no_matches_greeting:
  "\<not> isGreeting ''Which vendors are approved?''
   \<and> queryRFPData_sdk sample_env ''Which vendors are approved?'' [] [] =
     (Inr \<lparr>qr_answer = greeting_answer, qr_sources = [], qr_mockMode = None, qr_error = None\<rparr>,
      [Request (EmbeddingsCreate ''Which vendors are approved?''),
       Request (ApiQuery [0x3FF0000000000000] 5 \<lparr>fc_category = Some Exists, fc_sheetName = None\<rparr>)])"
  by (simp add: query_sdk_eval sample_env_def isGreeting_def greeting_words_def js_whitespace_def)

lemma queryRFPData_sdk_error_greeting:
  "queryRFPData_sdk (sample_env\<lparr>embeddings_create := \<lambda>h input. Inl (Error ''connect ECONNREFUSED'')\<rparr>)
     ''Which vendors are approved?'' [] [] =
     (Inr \<lparr>qr_answer = greeting_answer, qr_sources = [], qr_mockMode = None, qr_error = None\<rparr>,
      [Request (EmbeddingsCreate ''Which vendors are approved?''), SetTimeout 1000,
       Request (EmbeddingsCreate ''Which vendors are approved?''), SetTimeout 2000,
       Request (EmbeddingsCreate ''Which vendors are approved?'')])"
  by (simp add: query_sdk_eval sample_env_def)

lemma queryRFPData_sdk_unparsable_fallback:
  "queryRFPData_sdk matching_env ''What is the deadline?'' [] [] =
     (Inr \<lparr>qr_answer = fallback_answer, qr_sources = [], qr_mockMode = None,
           qr_error = Some ''Unexpected token in JSON''\<rparr>,
      [Request (EmbeddingsCreate ''What is the deadline?''),
       Request (ApiQuery [0x3FF0000000000000] 5 \<lparr>fc_category = Some Exists, fc_sheetName = None\<rparr>)])"
  by (simp add: query_sdk_eval matching_env_def sample_env_def context_of_sdk_def sample_match_def)

end
